theory Spec2Isabelle
  imports Main "HOL-Library.Word"
begin

unbundle bit_operations_syntax

section \<open>Machine model\<close>

text \<open>
  The kernel heap of \<^verbatim>\<open>mentos/src/mem/kheap.c\<close> lives in raw memory of a 32-bit x86
  machine: pointers and \<^verbatim>\<open>uint32_t\<close>/\<^verbatim>\<open>size_t\<close>/\<^verbatim>\<open>uintptr_t\<close> values are 32-bit words whose
  arithmetic wraps, the null pointer is the word 0, and memory is an array of bytes in
  which a 32-bit field is stored little-endian. Block headers are read and written in
  place, so two headers that overlap in memory really share bytes.
\<close>

type_synonym u32 = "32 word"
type_synonym memory = "32 word \<Rightarrow> 8 word"

definition load32 :: "memory \<Rightarrow> u32 \<Rightarrow> u32" where
  "load32 m a =
     ucast (m a) OR push_bit 8 (ucast (m (a + 1))) OR
     push_bit 16 (ucast (m (a + 2))) OR push_bit 24 (ucast (m (a + 3)))"

definition store32 :: "memory \<Rightarrow> u32 \<Rightarrow> u32 \<Rightarrow> memory" where
  "store32 m a v =
     m(a := ucast v, a + 1 := ucast (drop_bit 8 v),
       a + 2 := ucast (drop_bit 16 v), a + 3 := ucast (drop_bit 24 v))"

text \<open>\<^verbatim>\<open>memset(dst, c, n)\<close>: the \<open>n\<close> bytes from \<open>dst\<close> on become \<open>c\<close>.\<close>

definition memset :: "memory \<Rightarrow> u32 \<Rightarrow> 8 word \<Rightarrow> u32 \<Rightarrow> memory" where
  "memset m dst c n = (\<lambda>a. if a - dst < n then c else m a)"

text \<open>
  A failed \<^verbatim>\<open>assert\<close> stops the kernel; a loop that never leaves a cyclic list does not
  return. Both are results of the model.
\<close>

datatype error = AssertionFailed string | Diverges

section \<open>Block records and the heap header\<close>

text \<open>
  \<^verbatim>\<open>block_t\<close> has five 4-byte fields: \<^verbatim>\<open>size\<close> at offset 0, \<^verbatim>\<open>nextfree\<close> at 4, \<^verbatim>\<open>prevfree\<close>
  at 8, \<^verbatim>\<open>prev\<close> at 12 and \<^verbatim>\<open>next\<close> at 16, so \<^verbatim>\<open>OVERHEAD = sizeof(block_t) = 20\<close>.
  \<^verbatim>\<open>heap_header_t\<close> has three: \<^verbatim>\<open>head\<close> at 0, \<^verbatim>\<open>tail\<close> at 4 and \<^verbatim>\<open>free\<close> at 8, 12 bytes.
\<close>

definition OVERHEAD :: u32 where
  "OVERHEAD = 20"

definition sizeof_heap_header_t :: u32 where
  "sizeof_heap_header_t = 12"

definition get_size :: "memory \<Rightarrow> u32 \<Rightarrow> u32" where
  "get_size m block = load32 m block"

definition get_nextfree :: "memory \<Rightarrow> u32 \<Rightarrow> u32" where
  "get_nextfree m block = load32 m (block + 4)"

definition get_prevfree :: "memory \<Rightarrow> u32 \<Rightarrow> u32" where
  "get_prevfree m block = load32 m (block + 8)"

definition get_prev :: "memory \<Rightarrow> u32 \<Rightarrow> u32" where
  "get_prev m block = load32 m (block + 12)"

definition get_next :: "memory \<Rightarrow> u32 \<Rightarrow> u32" where
  "get_next m block = load32 m (block + 16)"

definition set_size :: "memory \<Rightarrow> u32 \<Rightarrow> u32 \<Rightarrow> memory" where
  "set_size m block v = store32 m block v"

definition set_nextfree :: "memory \<Rightarrow> u32 \<Rightarrow> u32 \<Rightarrow> memory" where
  "set_nextfree m block v = store32 m (block + 4) v"

definition set_prevfree :: "memory \<Rightarrow> u32 \<Rightarrow> u32 \<Rightarrow> memory" where
  "set_prevfree m block v = store32 m (block + 8) v"

definition set_prev :: "memory \<Rightarrow> u32 \<Rightarrow> u32 \<Rightarrow> memory" where
  "set_prev m block v = store32 m (block + 12) v"

definition set_next :: "memory \<Rightarrow> u32 \<Rightarrow> u32 \<Rightarrow> memory" where
  "set_next m block v = store32 m (block + 16) v"

definition get_head :: "memory \<Rightarrow> u32 \<Rightarrow> u32" where
  "get_head m header = load32 m header"

definition get_tail :: "memory \<Rightarrow> u32 \<Rightarrow> u32" where
  "get_tail m header = load32 m (header + 4)"

definition get_free :: "memory \<Rightarrow> u32 \<Rightarrow> u32" where
  "get_free m header = load32 m (header + 8)"

definition set_head :: "memory \<Rightarrow> u32 \<Rightarrow> u32 \<Rightarrow> memory" where
  "set_head m header v = store32 m header v"

definition set_tail :: "memory \<Rightarrow> u32 \<Rightarrow> u32 \<Rightarrow> memory" where
  "set_tail m header v = store32 m (header + 4) v"

definition set_free :: "memory \<Rightarrow> u32 \<Rightarrow> u32 \<Rightarrow> memory" where
  "set_free m header v = store32 m (header + 8) v"

text \<open>The macros on the \<^verbatim>\<open>size\<close> field, whose lowest bit is the free flag.\<close>

definition BLOCK_REAL_SIZE :: "u32 \<Rightarrow> u32" where
  "BLOCK_REAL_SIZE sz = sz AND 0xFFFFFFFE"

definition BLOCK_IS_FREE :: "memory \<Rightarrow> u32 \<Rightarrow> bool" where
  "BLOCK_IS_FREE m block \<longleftrightarrow> get_size m block AND 0x00000001 \<noteq> 0"

definition BLOCK_SET_FREE :: "memory \<Rightarrow> u32 \<Rightarrow> memory" where
  "BLOCK_SET_FREE m block = set_size m block (get_size m block OR 0x00000001)"

definition BLOCK_SET_USED :: "memory \<Rightarrow> u32 \<Rightarrow> memory" where
  "BLOCK_SET_USED m block = set_size m block (get_size m block AND 0xFFFFFFFE)"

text \<open>
  Modelled from the spec: the macro \<^verbatim>\<open>round_up\<close> of \<^verbatim>\<open>math.h\<close> is not among the sources;
  the spec gives \<open>rounded_size(n) = round_up_to_multiple(real_size(n), 16)\<close>. On
  \<^verbatim>\<open>uint32_t\<close> the sum wraps.
\<close>

definition round_up :: "u32 \<Rightarrow> u32 \<Rightarrow> u32" where
  "round_up number base = (number + base - 1) AND NOT (base - 1)"

definition blkmngr_get_rounded_size :: "u32 \<Rightarrow> u32" where
  "blkmngr_get_rounded_size sz = round_up (BLOCK_REAL_SIZE sz) 16"

definition blkmngr_does_it_fit :: "memory \<Rightarrow> u32 \<Rightarrow> u32 \<Rightarrow> error + bool" where
  "blkmngr_does_it_fit m block sz =
     (if block = 0 then Inl (AssertionFailed ''Received null block.'')
      else Inr (BLOCK_REAL_SIZE sz \<le> BLOCK_REAL_SIZE (get_size m block) \<and> BLOCK_IS_FREE m block))"

section \<open>Free-list manager\<close>

definition blkmngr_remove_from_freelist :: "memory \<Rightarrow> u32 \<Rightarrow> u32 \<Rightarrow> error + memory" where
  "blkmngr_remove_from_freelist m header block =
     (if header = 0 then Inl (AssertionFailed ''Received a NULL heap header.'')
      else if block = 0 then Inl (AssertionFailed ''Received null block.'')
      else
        let m1 = (if block = get_free m header
                  then set_free m header (get_nextfree m block)
                  else if get_prevfree m block \<noteq> 0
                  then set_nextfree m (get_prevfree m block) (get_nextfree m block)
                  else m);
            m2 = (if get_nextfree m1 block \<noteq> 0
                  then set_prevfree m1 (get_nextfree m1 block) (get_prevfree m1 block)
                  else m1);
            m3 = set_prevfree m2 block 0;
            m4 = set_nextfree m3 block 0
        in Inr m4)"

definition blkmngr_add_to_freelist :: "memory \<Rightarrow> u32 \<Rightarrow> u32 \<Rightarrow> error + memory" where
  "blkmngr_add_to_freelist m header block =
     (if header = 0 then Inl (AssertionFailed ''Received a NULL heap header.'')
      else if block = 0 then Inl (AssertionFailed ''Received null block.'')
      else
        let m1 = (if get_free m header \<noteq> 0
                  then set_prevfree m (get_free m header) block
                  else m);
            m2 = set_prevfree m1 block 0;
            m3 = set_nextfree m2 block (get_free m2 header);
            m4 = set_free m3 header block
        in Inr m4)"

section \<open>Best-fit search\<close>

text \<open>
  The \<^verbatim>\<open>for\<close> loop of \<^verbatim>\<open>__blkmngr_find_best_fitting\<close> follows \<^verbatim>\<open>nextfree\<close> links until it
  meets the null pointer; on a cyclic free list it never does, and the result is \<open>None\<close>.
\<close>

partial_function (option) find_best_loop ::
  "memory \<Rightarrow> u32 \<Rightarrow> u32 \<Rightarrow> u32 \<Rightarrow> (error + u32) option" where
  "find_best_loop m sz best_fitting it =
     (if it = 0 then Some (Inr best_fitting)
      else
        (case blkmngr_does_it_fit m it sz of
           Inl e \<Rightarrow> Some (Inl e)
         | Inr fits \<Rightarrow>
             if \<not> fits then find_best_loop m sz best_fitting (get_nextfree m it)
             else if best_fitting = 0 \<or>
                     BLOCK_REAL_SIZE (get_size m it) < BLOCK_REAL_SIZE (get_size m best_fitting)
             then find_best_loop m sz it (get_nextfree m it)
             else find_best_loop m sz best_fitting (get_nextfree m it)))"

declare find_best_loop.simps [code]

definition blkmngr_find_best_fitting :: "memory \<Rightarrow> u32 \<Rightarrow> u32 \<Rightarrow> error + u32" where
  "blkmngr_find_best_fitting m header sz =
     (if header = 0 then Inl (AssertionFailed ''Received a NULL heap header.'')
      else
        (case find_best_loop m sz 0 (get_free m header) of
           None \<Rightarrow> Inl Diverges
         | Some r \<Rightarrow> r))"

section \<open>Neighbours in the block list\<close>

definition blkmngr_get_previous_block :: "memory \<Rightarrow> u32 \<Rightarrow> u32 \<Rightarrow> error + u32" where
  "blkmngr_get_previous_block m header block =
     (if header = 0 then Inl (AssertionFailed ''Received a NULL heap header.'')
      else if block = 0 then Inl (AssertionFailed ''Received null block.'')
      else if block = get_head m header then Inr 0
      else Inr (get_prev m block))"

definition blkmngr_get_next_block :: "memory \<Rightarrow> u32 \<Rightarrow> u32 \<Rightarrow> error + u32" where
  "blkmngr_get_next_block m header block =
     (if header = 0 then Inl (AssertionFailed ''Received a NULL heap header.'')
      else if block = 0 then Inl (AssertionFailed ''Received null block.'')
      else if block = get_tail m header then Inr 0
      else Inr (get_next m block))"

section \<open>Splitting and merging\<close>

text \<open>
  The statements of \<^verbatim>\<open>__blkmngr_split_block\<close> and \<^verbatim>\<open>__blkmngr_merge_blocks\<close> in their order,
  each reading the memory the previous one left (the \<^verbatim>\<open>pr_debug\<close> lines only print).
\<close>

definition blkmngr_split_block :: "memory \<Rightarrow> u32 \<Rightarrow> u32 \<Rightarrow> u32 \<Rightarrow> error + memory" where
  "blkmngr_split_block m header block sz =
     (if block = 0 then Inl (AssertionFailed ''Received NULL block.'')
      else if \<not> BLOCK_IS_FREE m block then Inl (AssertionFailed ''The block is not free.'')
      else
        let split = block + OVERHEAD + sz;
            m1 = set_prev m split block;
            m2 = set_prevfree m1 split block;
            m3 = set_next m2 split (get_next m2 block);
            m4 = set_nextfree m3 split (get_nextfree m3 block);
            m5 = set_next m4 block split;
            m6 = set_nextfree m5 block split;
            m7 = set_size m6 split (BLOCK_REAL_SIZE (get_size m6 block) - OVERHEAD - sz);
            m8 = set_size m7 block (BLOCK_REAL_SIZE sz);
            m9 = BLOCK_SET_FREE m8 split;
            m10 = (if get_tail m9 header = block then set_tail m9 header split else m9)
        in Inr m10)"

definition blkmngr_merge_blocks :: "memory \<Rightarrow> u32 \<Rightarrow> u32 \<Rightarrow> u32 \<Rightarrow> error + memory" where
  "blkmngr_merge_blocks m header block1 block2 =
     (if block1 = 0 then Inl (AssertionFailed ''Received NULL first block.'')
      else if block2 = 0 then Inl (AssertionFailed ''Received NULL second block.'')
      else if \<not> BLOCK_IS_FREE m block1 then Inl (AssertionFailed ''The first block is not free.'')
      else if \<not> BLOCK_IS_FREE m block2 then Inl (AssertionFailed ''The second block is not free.'')
      else if get_next m block1 \<noteq> block2 then Inl (AssertionFailed ''The blocks are not adjacent.'')
      else
        (case blkmngr_remove_from_freelist m header block2 of
           Inl e \<Rightarrow> Inl e
         | Inr m1 \<Rightarrow>
             let m2 = set_next m1 block1 (get_next m1 block2);
                 m3 = set_size m2 block1
                        (BLOCK_REAL_SIZE (get_size m2 block1) +
                         BLOCK_REAL_SIZE (get_size m2 block2) + OVERHEAD);
                 m4 = BLOCK_SET_FREE m3 block1;
                 m5 = (if get_tail m4 header = block2 then set_tail m4 header block1 else m4)
             in Inr m5))"

section \<open>Dumping the lists\<close>

text \<open>
  \<^verbatim>\<open>__blkmngr_dump\<close> changes nothing, but it walks the block list along \<^verbatim>\<open>next\<close> and the
  free list along \<^verbatim>\<open>nextfree\<close> up to the null pointer, and every allocation and every free
  ends with it: on a cyclic list the call does not return.
\<close>

partial_function (option) dump_list :: "memory \<Rightarrow> u32 \<Rightarrow> unit option" where
  "dump_list m it = (if it = 0 then Some () else dump_list m (get_next m it))"

partial_function (option) dump_free :: "memory \<Rightarrow> u32 \<Rightarrow> unit option" where
  "dump_free m it = (if it = 0 then Some () else dump_free m (get_nextfree m it))"

declare dump_list.simps [code]

declare dump_free.simps [code]

definition blkmngr_dump :: "memory \<Rightarrow> u32 \<Rightarrow> error + unit" where
  "blkmngr_dump m header =
     (if header = 0 then Inl (AssertionFailed ''Received a NULL heap header.'')
      else
        (case dump_list m (get_head m header) of
           None \<Rightarrow> Inl Diverges
         | Some _ \<Rightarrow>
             (case dump_free m (get_free m header) of
                None \<Rightarrow> Inl Diverges
              | Some _ \<Rightarrow> Inr ())))"

section \<open>The memory descriptor and heap growth\<close>

text \<open>
  \<^verbatim>\<open>vm_area_struct_t\<close> carries the bounds of a reserved range. The state the allocator
  works on is the memory together with the current task's memory descriptor
  (\<^verbatim>\<open>mm_struct_t\<close>): its list of areas, \<^verbatim>\<open>start_brk\<close> and \<^verbatim>\<open>brk\<close>. The current task and its
  descriptor always exist here, so the assertions on them cannot fail.
\<close>

record vm_area_struct =
  vm_start :: u32
  vm_end :: u32

record kernel =
  mem :: memory
  mmap_list :: "vm_area_struct list"
  start_brk :: u32
  brk :: u32

definition do_brk :: "kernel \<Rightarrow> vm_area_struct \<Rightarrow> u32 \<Rightarrow> u32 \<times> kernel" where
  "do_brk k heap increment =
     (let new_heap_top = brk k + increment
      in if vm_end heap < new_heap_top then (0, k)
         else (let k1 = k\<lparr>brk := new_heap_top\<rparr> in (brk k1 - increment, k1)))"

section \<open>Allocation and free\<close>

definition do_malloc :: "kernel \<Rightarrow> vm_area_struct \<Rightarrow> u32 \<Rightarrow> error + (u32 \<times> kernel)" where
  "do_malloc k heap sz =
     (if sz = 0 then Inr (0, k)
      else
        let header = vm_start heap;
            rounded_size = blkmngr_get_rounded_size sz
        in
        (case blkmngr_find_best_fitting (mem k) header rounded_size of
           Inl e \<Rightarrow> Inl e
         | Inr found \<Rightarrow>
             (case
                (if found \<noteq> 0 then
                   (case (if rounded_size < BLOCK_REAL_SIZE (get_size (mem k) found)
                          then blkmngr_split_block (mem k) header found rounded_size
                          else Inr (mem k)) of
                      Inl e \<Rightarrow> Inl e
                    | Inr m1 \<Rightarrow>
                        (case blkmngr_remove_from_freelist m1 header found of
                           Inl e \<Rightarrow> Inl e
                         | Inr m2 \<Rightarrow> Inr (found, k\<lparr>mem := m2\<rparr>)))
                 else
                   (case do_brk k heap (rounded_size + OVERHEAD) of
                      (block, k1) \<Rightarrow>
                        if block = 0 then Inl (AssertionFailed ''Failed to create a new block!'')
                        else if get_tail (mem k1) header = 0
                        then Inl (AssertionFailed ''The tail is not set!'')
                        else
                          let m1 = set_next (mem k1) (get_tail (mem k1) header) block;
                              m2 = set_size m1 block rounded_size;
                              m3 = set_prev m2 block (get_tail m2 header);
                              m4 = set_next m3 block 0;
                              m5 = set_prevfree m4 block 0;
                              m6 = set_nextfree m5 block 0
                          in Inr (block, k1\<lparr>mem := m6\<rparr>))) of
                Inl e \<Rightarrow> Inl e
              | Inr (block, k2) \<Rightarrow>
                  let m7 = BLOCK_SET_USED (mem k2) block
                  in (case blkmngr_dump m7 header of
                        Inl e \<Rightarrow> Inl e
                      | Inr _ \<Rightarrow> Inr (block + OVERHEAD, k2\<lparr>mem := m7\<rparr>)))))"

definition do_free :: "kernel \<Rightarrow> vm_area_struct \<Rightarrow> u32 \<Rightarrow> error + kernel" where
  "do_free k heap ptr =
     (let header = vm_start heap;
          block = ptr - OVERHEAD
      in
      (case blkmngr_get_previous_block (mem k) header block of
         Inl e \<Rightarrow> Inl e
       | Inr prev \<Rightarrow>
           (case blkmngr_get_next_block (mem k) header block of
              Inl e \<Rightarrow> Inl e
            | Inr next \<Rightarrow>
                let m1 = BLOCK_SET_FREE (mem k) block
                in
                (case
                   (if prev \<noteq> 0 \<and> next \<noteq> 0 \<and> BLOCK_IS_FREE m1 prev \<and> BLOCK_IS_FREE m1 next then
                      (case blkmngr_merge_blocks m1 header prev block of
                         Inl e \<Rightarrow> Inl e
                       | Inr m2 \<Rightarrow> blkmngr_merge_blocks m2 header prev next)
                    else if prev \<noteq> 0 \<and> BLOCK_IS_FREE m1 prev then
                      blkmngr_merge_blocks m1 header prev block
                    else if next \<noteq> 0 \<and> BLOCK_IS_FREE m1 next then
                      (case blkmngr_merge_blocks m1 header block next of
                         Inl e \<Rightarrow> Inl e
                       | Inr m2 \<Rightarrow> blkmngr_add_to_freelist m2 header block)
                    else blkmngr_add_to_freelist m1 header block) of
                   Inl e \<Rightarrow> Inl e
                 | Inr m3 \<Rightarrow>
                     (case blkmngr_dump m3 header of
                        Inl e \<Rightarrow> Inl e
                      | Inr _ \<Rightarrow> Inr (k\<lparr>mem := m3\<rparr>))))))"

section \<open>The system call\<close>

text \<open>
  Modelled from the spec: \<^verbatim>\<open>find_vm_area\<close> and \<^verbatim>\<open>create_vm_area\<close> belong to the paging code,
  which is not among the sources. The spec describes them as \<open>find_existing_region()\<close>
  and \<open>create_region(start_hint, length, protection_flags)\<close>: the first looks the area
  that starts at the given address up among the areas of the memory descriptor, the
  second reserves \<open>length\<close> bytes at \<open>start_hint\<close> and records the new area.
\<close>

definition find_vm_area :: "kernel \<Rightarrow> u32 \<Rightarrow> vm_area_struct option" where
  "find_vm_area k start = find (\<lambda>a. vm_start a = start) (mmap_list k)"

definition create_vm_area :: "kernel \<Rightarrow> u32 \<Rightarrow> u32 \<Rightarrow> vm_area_struct \<times> kernel" where
  "create_vm_area k virt_start sz =
     (let segment = \<lparr>vm_start = virt_start, vm_end = virt_start + sz\<rparr>
      in (segment, k\<lparr>mmap_list := segment # mmap_list k\<rparr>))"

text \<open>
  Modelled from the spec: the constant \<^verbatim>\<open>M\<close> of \<^verbatim>\<open>kernel.h\<close> is not among the sources; the
  comment at its use reads "Set the heap to 4 Mb", so \<^verbatim>\<open>M\<close> is \<open>1024 * 1024\<close>.
\<close>

definition M :: u32 where
  "M = 1024 * 1024"

text \<open>
  The first part of \<^verbatim>\<open>sys_brk\<close>, run when the task has no heap yet. \<^verbatim>\<open>header\<close> has type
  \<^verbatim>\<open>heap_header_t *\<close>, so \<^verbatim>\<open>header + sizeof(heap_header_t)\<close> advances it by
  \<^verbatim>\<open>sizeof(heap_header_t)\<close> elements of \<^verbatim>\<open>sizeof(heap_header_t)\<close> bytes each.
\<close>

definition heap_create :: "kernel \<Rightarrow> error + (vm_area_struct \<times> kernel)" where
  "heap_create k =
     (let heap_size = 4 * M;
          segment_size = heap_size + sizeof_heap_header_t + OVERHEAD
      in
      (case create_vm_area k 0x40000000 segment_size of
         (heap, k1) \<Rightarrow>
           let m0 = memset (mem k1) (vm_start heap) 0 segment_size;
               k2 = k1\<lparr>start_brk := vm_start heap\<rparr>;
               k3 = k2\<lparr>brk := vm_start heap + sizeof_heap_header_t\<rparr>;
               header = vm_start heap;
               m1 = set_head m0 header (header + sizeof_heap_header_t * sizeof_heap_header_t);
               m2 = set_tail m1 header (header + sizeof_heap_header_t * sizeof_heap_header_t);
               m3 = set_free m2 header (get_head m2 header);
               first = get_head m3 header;
               m4 = set_size m3 first heap_size;
               m5 = set_prev m4 first 0;
               m6 = set_next m5 first 0;
               m7 = set_nextfree m6 first 0;
               m8 = BLOCK_SET_FREE m7 first
           in (case blkmngr_dump m8 header of
                 Inl e \<Rightarrow> Inl e
               | Inr _ \<Rightarrow> Inr (heap, k3\<lparr>mem := m8\<rparr>))))"

text \<open>The second part: the argument is a pointer to free or a size to allocate.\<close>

definition sys_brk_dispatch :: "kernel \<Rightarrow> vm_area_struct \<Rightarrow> u32 \<Rightarrow> error + (u32 \<times> kernel)" where
  "sys_brk_dispatch k heap addr =
     (if vm_start heap < addr \<and> addr < vm_end heap then
        (case do_free k heap addr of
           Inl e \<Rightarrow> Inl e
         | Inr k1 \<Rightarrow> Inr (0, k1))
      else do_malloc k heap addr)"

definition sys_brk :: "kernel \<Rightarrow> u32 \<Rightarrow> error + (u32 \<times> kernel)" where
  "sys_brk k addr =
     (case find_vm_area k (start_brk k) of
        None \<Rightarrow>
          (case heap_create k of
             Inl e \<Rightarrow> Inl e
           | Inr (heap, k1) \<Rightarrow> sys_brk_dispatch k1 heap addr)
      | Some heap \<Rightarrow> sys_brk_dispatch k heap addr)"

text \<open>A sequence of system calls, stopping at the first that does not return.\<close>

fun sys_brk_seq :: "kernel \<Rightarrow> u32 list \<Rightarrow> error + (u32 list \<times> kernel)" where
  "sys_brk_seq k [] = Inr ([], k)"
| "sys_brk_seq k (addr # addrs) =
     (case sys_brk k addr of
        Inl e \<Rightarrow> Inl e
      | Inr (r, k1) \<Rightarrow>
          (case sys_brk_seq k1 addrs of
             Inl e \<Rightarrow> Inl e
           | Inr (rs, k2) \<Rightarrow> Inr (r # rs, k2)))"

text \<open>A task that has never called the allocator: no areas, zeroed memory.\<close>

definition fresh_kernel :: kernel where
  "fresh_kernel = \<lparr>mem = (\<lambda>_. 0), mmap_list = [], start_brk = 0, brk = 0\<rparr>"

section \<open>Observing the two lists\<close>

text \<open>
  \<open>chain nxt it bs\<close>: following the link \<open>nxt\<close> from \<open>it\<close> visits exactly the nodes \<open>bs\<close>, in
  this order, and then reaches the null pointer.
\<close>

fun chain :: "(u32 \<Rightarrow> u32) \<Rightarrow> u32 \<Rightarrow> u32 list \<Rightarrow> bool" where
  "chain nxt it [] \<longleftrightarrow> it = 0"
| "chain nxt it (b # bs) \<longleftrightarrow> it \<noteq> 0 \<and> it = b \<and> chain nxt (nxt b) bs"

definition block_list_is :: "memory \<Rightarrow> u32 \<Rightarrow> u32 list \<Rightarrow> bool" where
  "block_list_is m header bs \<longleftrightarrow> chain (get_next m) (get_head m header) bs"

definition free_list_is :: "memory \<Rightarrow> u32 \<Rightarrow> u32 list \<Rightarrow> bool" where
  "free_list_is m header bs \<longleftrightarrow> chain (get_nextfree m) (get_free m header) bs"

text \<open>The real size of a block: its \<^verbatim>\<open>size\<close> field without the flag bit.\<close>

definition real_size :: "memory \<Rightarrow> u32 \<Rightarrow> u32" where
  "real_size m block = BLOCK_REAL_SIZE (get_size m block)"

text \<open>
  \<open>best_among m sz r seen\<close>: among the blocks \<open>seen\<close>, in scan order, \<open>r\<close> is the first one of
  least real size that \<^verbatim>\<open>__blkmngr_does_it_fit\<close> accepts for \<open>sz\<close>, or null when it accepts
  none.
\<close>

definition best_among :: "memory \<Rightarrow> u32 \<Rightarrow> u32 \<Rightarrow> u32 list \<Rightarrow> bool" where
  "best_among m sz r seen \<longleftrightarrow>
     (if r = 0 then \<forall>b\<in>set seen. blkmngr_does_it_fit m b sz \<noteq> Inr True
      else blkmngr_does_it_fit m r sz = Inr True \<and>
           (\<exists>pre post. seen = pre @ r # post \<and>
              (\<forall>b\<in>set pre. blkmngr_does_it_fit m b sz = Inr True \<longrightarrow>
                             real_size m r < real_size m b) \<and>
              (\<forall>b\<in>set post. blkmngr_does_it_fit m b sz = Inr True \<longrightarrow>
                              real_size m r \<le> real_size m b)))"

text \<open>
  The state a fresh task reaches by a sequence of system calls (the fresh state itself
  when one of them does not return; every sequence used below returns).
\<close>

definition kernel_after :: "u32 list \<Rightarrow> kernel" where
  "kernel_after addrs =
     (case sys_brk_seq fresh_kernel addrs of Inl e \<Rightarrow> fresh_kernel | Inr (rs, k) \<Rightarrow> k)"

text \<open>The heap area that \<^verbatim>\<open>sys_brk\<close> creates.\<close>

definition heap_area :: vm_area_struct where
  "heap_area = \<lparr>vm_start = 0x40000000, vm_end = 0x40400020\<rparr>"

text \<open>
  The two branches of \<^verbatim>\<open>__do_malloc\<close> as functions of the memory, up to and including
  \<^verbatim>\<open>BLOCK_SET_USED\<close>: the memory after a block found by the search has been taken, and the
  memory after a new block has been set up at the old \<^verbatim>\<open>brk\<close>.
\<close>

definition malloc_fit_memory :: "memory \<Rightarrow> u32 \<Rightarrow> u32 \<Rightarrow> u32 \<Rightarrow> error + memory" where
  "malloc_fit_memory m header found rounded_size =
     (case (if rounded_size < BLOCK_REAL_SIZE (get_size m found)
            then blkmngr_split_block m header found rounded_size
            else Inr m) of
        Inl e \<Rightarrow> Inl e
      | Inr m1 \<Rightarrow>
          (case blkmngr_remove_from_freelist m1 header found of
             Inl e \<Rightarrow> Inl e
           | Inr m2 \<Rightarrow> Inr (BLOCK_SET_USED m2 found)))"

definition malloc_grow_memory :: "memory \<Rightarrow> u32 \<Rightarrow> u32 \<Rightarrow> u32 \<Rightarrow> memory" where
  "malloc_grow_memory m header block rounded_size =
     (let m1 = set_next m (get_tail m header) block;
          m2 = set_size m1 block rounded_size;
          m3 = set_prev m2 block (get_tail m2 header);
          m4 = set_next m3 block 0;
          m5 = set_prevfree m4 block 0;
          m6 = set_nextfree m5 block 0
      in BLOCK_SET_USED m6 block)"

section \<open>Reading and writing memory\<close>

lemma load32_store32_same: "load32 (store32 m a v) a = v"
  unfolding load32_def store32_def
  apply simp
  apply (rule bit_word_eqI)
  subgoal for n
    by (cases "n < 8"; cases "n < 16"; cases "n < 24") (auto simp add: bit_simps)
  done

lemma bytes_apart:
  fixes a b :: u32
  assumes "6 < b - a + 3"
  shows "b \<noteq> a" "b \<noteq> a + 1" "b \<noteq> a + 2" "b \<noteq> a + 3"
    and "b + 1 \<noteq> a" "b + 1 \<noteq> a + 1" "b + 1 \<noteq> a + 2" "b + 1 \<noteq> a + 3"
    and "b + 2 \<noteq> a" "b + 2 \<noteq> a + 1" "b + 2 \<noteq> a + 2" "b + 2 \<noteq> a + 3"
    and "b + 3 \<noteq> a" "b + 3 \<noteq> a + 1" "b + 3 \<noteq> a + 2" "b + 3 \<noteq> a + 3"
  using assms by auto

lemma load32_store32_other: "6 < b - a + 3 \<Longrightarrow> load32 (store32 m a v) b = load32 m b"
  unfolding load32_def store32_def by (simp add: bytes_apart)

lemma aligned_dvd: "(a :: u32) AND 3 = 0 \<longleftrightarrow> 4 dvd unat a"
  using and_mask_dvd_nat [of 2 a] by (simp add: mask_eq_exp_minus_1)

lemma aligned_apart:
  fixes a b :: u32
  assumes "a AND 3 = 0" "b AND 3 = 0" "a \<noteq> b"
  shows "6 < b - a + 3"
proof -
  have a: "4 dvd unat a" and b: "4 dvd unat b"
    using assms by (simp_all add: aligned_dvd)
  have ne: "unat a \<noteq> unat b"
    using assms by (simp add: word_unat_eq_iff)
  have la: "unat a < 2 ^ 32" and lb: "unat b < 2 ^ 32"
    using unsigned_less [of a] unsigned_less [of b] by simp_all
  show ?thesis
    apply (simp add: word_less_nat_alt unat_word_ariths unat_sub_if')
    using a b ne la lb
    apply (auto simp: dvd_def)
    done
qed

text \<open>Two different 4-byte aligned fields share no byte.\<close>

lemma load32_store32_aligned:
  "a AND 3 = 0 \<Longrightarrow> b AND 3 = 0 \<Longrightarrow> a \<noteq> b \<Longrightarrow> load32 (store32 m a v) b = load32 m b"
  by (rule load32_store32_other) (rule aligned_apart)

lemma load32_memset_fresh: "load32 (memset (\<lambda>_. 0) dst 0 n) b = 0"
  by (simp add: load32_def memset_def)

lemma load32_zero: "load32 (\<lambda>_. 0) b = 0"
  by (simp add: load32_def)

lemma load32_memset_inside:
  "b - dst < n \<Longrightarrow> b + 1 - dst < n \<Longrightarrow> b + 2 - dst < n \<Longrightarrow> b + 3 - dst < n \<Longrightarrow>
   load32 (memset m dst 0 n) b = 0"
  by (simp add: load32_def memset_def)

section \<open>Unfolding the loops\<close>

lemma find_best_loop_null: "find_best_loop m sz best 0 = Some (Inr best)"
  by (subst find_best_loop.simps) simp

lemma find_best_loop_step:
  "it \<noteq> 0 \<Longrightarrow> find_best_loop m sz best it =
     (case blkmngr_does_it_fit m it sz of
        Inl e \<Rightarrow> Some (Inl e)
      | Inr fits \<Rightarrow>
          if \<not> fits then find_best_loop m sz best (get_nextfree m it)
          else if best = 0 \<or> BLOCK_REAL_SIZE (get_size m it) < BLOCK_REAL_SIZE (get_size m best)
          then find_best_loop m sz it (get_nextfree m it)
          else find_best_loop m sz best (get_nextfree m it))"
  by (subst find_best_loop.simps) simp

lemma dump_list_null: "dump_list m 0 = Some ()"
  by (subst dump_list.simps) simp

lemma dump_list_step: "it \<noteq> 0 \<Longrightarrow> dump_list m it = dump_list m (get_next m it)"
  by (subst dump_list.simps) simp

lemma dump_free_null: "dump_free m 0 = Some ()"
  by (subst dump_free.simps) simp

lemma dump_free_step: "it \<noteq> 0 \<Longrightarrow> dump_free m it = dump_free m (get_nextfree m it)"
  by (subst dump_free.simps) simp

lemmas field_defs =
  get_size_def get_nextfree_def get_prevfree_def get_prev_def get_next_def
  set_size_def set_nextfree_def set_prevfree_def set_prev_def set_next_def
  get_head_def get_tail_def get_free_def set_head_def set_tail_def set_free_def
  OVERHEAD_def sizeof_heap_header_t_def M_def
  BLOCK_REAL_SIZE_def BLOCK_IS_FREE_def BLOCK_SET_FREE_def BLOCK_SET_USED_def

lemmas heap_eval =
  load32_store32_same load32_store32_aligned load32_memset_fresh load32_zero
  find_best_loop_null find_best_loop_step dump_list_null dump_list_step
  dump_free_null dump_free_step field_defs
  round_up_def blkmngr_get_rounded_size_def blkmngr_does_it_fit_def
  blkmngr_remove_from_freelist_def blkmngr_add_to_freelist_def
  blkmngr_find_best_fitting_def blkmngr_get_previous_block_def blkmngr_get_next_block_def
  blkmngr_split_block_def blkmngr_merge_blocks_def blkmngr_dump_def
  do_brk_def do_malloc_def do_free_def find_vm_area_def create_vm_area_def
  heap_create_def sys_brk_dispatch_def sys_brk_def fresh_kernel_def
  block_list_is_def free_list_is_def real_size_def heap_area_def
  malloc_fit_memory_def malloc_grow_memory_def Let_def

section \<open>Best fit\<close>

lemma best_among_none:
  "best_among m sz 0 seen \<longleftrightarrow> (\<forall>b\<in>set seen. blkmngr_does_it_fit m b sz \<noteq> Inr True)"
  by (simp add: best_among_def)

lemma best_among_some:
  "r \<noteq> 0 \<Longrightarrow> best_among m sz r seen \<longleftrightarrow>
     blkmngr_does_it_fit m r sz = Inr True \<and>
     (\<exists>pre post. seen = pre @ r # post \<and>
        (\<forall>b\<in>set pre. blkmngr_does_it_fit m b sz = Inr True \<longrightarrow> real_size m r < real_size m b) \<and>
        (\<forall>b\<in>set post. blkmngr_does_it_fit m b sz = Inr True \<longrightarrow> real_size m r \<le> real_size m b))"
  by (simp add: best_among_def)

text \<open>The loop keeps its candidate when the next block does not fit or is not smaller.\<close>

lemma best_among_keep:
  assumes inv: "best_among m sz best seen"
    and no: "blkmngr_does_it_fit m b sz = Inr True \<Longrightarrow> best \<noteq> 0 \<and> real_size m best \<le> real_size m b"
  shows "best_among m sz best (seen @ [b])"
proof (cases "best = 0")
  case True
  with no have "blkmngr_does_it_fit m b sz \<noteq> Inr True" by blast
  with inv True show ?thesis by (simp add: best_among_none)
next
  case False
  from inv False obtain pre post where
    f: "blkmngr_does_it_fit m best sz = Inr True" and s: "seen = pre @ best # post"
    and p1: "\<forall>x\<in>set pre. blkmngr_does_it_fit m x sz = Inr True \<longrightarrow> real_size m best < real_size m x"
    and p2: "\<forall>x\<in>set post. blkmngr_does_it_fit m x sz = Inr True \<longrightarrow> real_size m best \<le> real_size m x"
    unfolding best_among_some [OF False] by blast
  have e: "seen @ [b] = pre @ best # (post @ [b])"
    unfolding s by simp
  have p3: "\<forall>x\<in>set (post @ [b]). blkmngr_does_it_fit m x sz = Inr True \<longrightarrow> real_size m best \<le> real_size m x"
  proof
    fix x assume "x \<in> set (post @ [b])"
    then have "x \<in> set post \<or> x = b" by auto
    then show "blkmngr_does_it_fit m x sz = Inr True \<longrightarrow> real_size m best \<le> real_size m x"
      using p2 no by blast
  qed
  show ?thesis
    unfolding best_among_some [OF False]
    using f e p1 p3 by blast
qed

text \<open>The loop takes the next block when it fits and is the first or strictly smaller.\<close>

lemma best_among_take:
  assumes inv: "best_among m sz best seen"
    and b: "b \<noteq> 0" and fit: "blkmngr_does_it_fit m b sz = Inr True"
    and less: "best = 0 \<or> real_size m b < real_size m best"
  shows "best_among m sz b (seen @ [b])"
proof -
  have all: "\<forall>x\<in>set seen. blkmngr_does_it_fit m x sz = Inr True \<longrightarrow> real_size m b < real_size m x"
  proof (cases "best = 0")
    case True
    with inv show ?thesis by (simp add: best_among_none)
  next
    case False
    from inv False obtain pre post where
      s: "seen = pre @ best # post"
      and p1: "\<forall>x\<in>set pre. blkmngr_does_it_fit m x sz = Inr True \<longrightarrow> real_size m best < real_size m x"
      and p2: "\<forall>x\<in>set post. blkmngr_does_it_fit m x sz = Inr True \<longrightarrow> real_size m best \<le> real_size m x"
      unfolding best_among_some [OF False] by blast
    from less False have l: "real_size m b < real_size m best" by simp
    show ?thesis
    proof
      fix x assume "x \<in> set seen"
      then have "x \<in> set pre \<or> x = best \<or> x \<in> set post" unfolding s by auto
      then show "blkmngr_does_it_fit m x sz = Inr True \<longrightarrow> real_size m b < real_size m x"
        using p1 p2 l by (metis order.strict_trans order_less_le_trans)
    qed
  qed
  have "seen @ [b] = seen @ b # []" by simp
  moreover have "\<forall>x\<in>set []. blkmngr_does_it_fit m x sz = Inr True \<longrightarrow> real_size m b \<le> real_size m x"
    by simp
  ultimately show ?thesis
    unfolding best_among_some [OF b]
    using fit all by blast
qed

text \<open>
  On a free list that ends with the null pointer the loop returns, and what it returns
  is the best among all the blocks of the list.
\<close>

lemma find_best_loop_chain:
  assumes "chain (get_nextfree m) it bs" and "best_among m sz best seen"
  shows "\<exists>r. find_best_loop m sz best it = Some (Inr r) \<and> best_among m sz r (seen @ bs)"
  using assms
proof (induction bs arbitrary: it best seen)
  case Nil
  then show ?case by (simp add: find_best_loop_null)
next
  case (Cons b bs)
  from Cons.prems(1) have it: "it = b" and nz: "b \<noteq> 0"
    and rest: "chain (get_nextfree m) (get_nextfree m b) bs"
    by auto
  have app: "seen @ b # bs = (seen @ [b]) @ bs" by simp
  have fit_eq: "blkmngr_does_it_fit m b sz =
      Inr (BLOCK_REAL_SIZE sz \<le> BLOCK_REAL_SIZE (get_size m b) \<and> BLOCK_IS_FREE m b)"
    using nz by (simp add: blkmngr_does_it_fit_def)
  show ?case
  proof (cases "blkmngr_does_it_fit m b sz = Inr True")
    case False
    then have step: "find_best_loop m sz best b = find_best_loop m sz best (get_nextfree m b)"
      using nz fit_eq by (simp add: find_best_loop_step)
    have "best_among m sz best (seen @ [b])"
      by (rule best_among_keep [OF Cons.prems(2)]) (use False in simp)
    from Cons.IH [OF rest this] show ?thesis
      unfolding it step app .
  next
    case True
    show ?thesis
    proof (cases "best = 0 \<or> real_size m b < real_size m best")
      case take: True
      then have step: "find_best_loop m sz best b = find_best_loop m sz b (get_nextfree m b)"
        using nz fit_eq True by (simp add: find_best_loop_step real_size_def)
      have "best_among m sz b (seen @ [b])"
        by (rule best_among_take [OF Cons.prems(2) nz True take])
      from Cons.IH [OF rest this] show ?thesis
        unfolding it step app .
    next
      case keep: False
      then have step: "find_best_loop m sz best b = find_best_loop m sz best (get_nextfree m b)"
        using nz fit_eq True by (simp add: find_best_loop_step real_size_def)
      have "best_among m sz best (seen @ [b])"
        by (rule best_among_keep [OF Cons.prems(2)]) (use keep in \<open>simp add: not_less\<close>)
      from Cons.IH [OF rest this] show ?thesis
        unfolding it step app .
    qed
  qed
qed

lemma find_best_fitting_chain:
  assumes "header \<noteq> 0" and "free_list_is m header bs"
  shows "\<exists>r. blkmngr_find_best_fitting m header sz = Inr r \<and> best_among m sz r bs"
proof -
  have "best_among m sz 0 []" by (simp add: best_among_none)
  from find_best_loop_chain [OF assms(2) [unfolded free_list_is_def] this]
  show ?thesis using assms(1) by (auto simp add: blkmngr_find_best_fitting_def)
qed

text \<open>
  What the search does on a free list \<open>bs\<close> that ends with the null pointer: it returns;
  it returns null exactly when no block of the list is free with real size at least the
  requested size (flag bit cleared, as \<^verbatim>\<open>__blkmngr_does_it_fit\<close> compares it); otherwise it
  returns such a block \<open>r\<close> of the list, every fitting block scanned before \<open>r\<close> is strictly
  larger and every fitting block scanned after it is at least as large.
\<close>

lemma find_best_fitting_on_free_list:
  assumes "header \<noteq> 0" and "free_list_is m header bs"
  shows "\<exists>r. blkmngr_find_best_fitting m header sz = Inr r \<and>
           (r = 0 \<longleftrightarrow> (\<forall>b\<in>set bs. blkmngr_does_it_fit m b sz \<noteq> Inr True)) \<and>
           (r \<noteq> 0 \<longrightarrow>
              BLOCK_IS_FREE m r \<and> BLOCK_REAL_SIZE sz \<le> real_size m r \<and>
              (\<exists>pre post. bs = pre @ r # post \<and>
                 (\<forall>b\<in>set pre. blkmngr_does_it_fit m b sz = Inr True \<longrightarrow>
                                real_size m r < real_size m b) \<and>
                 (\<forall>b\<in>set post. blkmngr_does_it_fit m b sz = Inr True \<longrightarrow>
                                 real_size m r \<le> real_size m b)))"
proof -
  from find_best_fitting_chain [OF assms, of sz] obtain r where
    r: "blkmngr_find_best_fitting m header sz = Inr r" and inv: "best_among m sz r bs"
    by blast
  have zero: "r = 0 \<longleftrightarrow> (\<forall>b\<in>set bs. blkmngr_does_it_fit m b sz \<noteq> Inr True)"
  proof (cases "r = 0")
    case True
    with inv show ?thesis by (simp add: best_among_none)
  next
    case False
    with inv have "blkmngr_does_it_fit m r sz = Inr True" and "r \<in> set bs"
      by (auto simp add: best_among_some)
    with False show ?thesis by blast
  qed
  have some: "r \<noteq> 0 \<longrightarrow>
              BLOCK_IS_FREE m r \<and> BLOCK_REAL_SIZE sz \<le> real_size m r \<and>
              (\<exists>pre post. bs = pre @ r # post \<and>
                 (\<forall>b\<in>set pre. blkmngr_does_it_fit m b sz = Inr True \<longrightarrow>
                                real_size m r < real_size m b) \<and>
                 (\<forall>b\<in>set post. blkmngr_does_it_fit m b sz = Inr True \<longrightarrow>
                                 real_size m r \<le> real_size m b))"
  proof
    assume nz: "r \<noteq> 0"
    with inv have f: "blkmngr_does_it_fit m r sz = Inr True"
      and d: "\<exists>pre post. bs = pre @ r # post \<and>
                 (\<forall>b\<in>set pre. blkmngr_does_it_fit m b sz = Inr True \<longrightarrow>
                                real_size m r < real_size m b) \<and>
                 (\<forall>b\<in>set post. blkmngr_does_it_fit m b sz = Inr True \<longrightarrow>
                                 real_size m r \<le> real_size m b)"
      by (simp_all add: best_among_some)
    from f nz have "BLOCK_IS_FREE m r \<and> BLOCK_REAL_SIZE sz \<le> real_size m r"
      by (simp add: blkmngr_does_it_fit_def real_size_def)
    with d show "BLOCK_IS_FREE m r \<and> BLOCK_REAL_SIZE sz \<le> real_size m r \<and>
              (\<exists>pre post. bs = pre @ r # post \<and>
                 (\<forall>b\<in>set pre. blkmngr_does_it_fit m b sz = Inr True \<longrightarrow>
                                real_size m r < real_size m b) \<and>
                 (\<forall>b\<in>set post. blkmngr_does_it_fit m b sz = Inr True \<longrightarrow>
                                 real_size m r \<le> real_size m b))"
      by blast
  qed
  from r zero some show ?thesis by blast
qed

section \<open>Exhaustion\<close>

text \<open>
  C1, as the code has it. For every non-zero request whose rounded size no block of the
  (null-terminated) free list fits and for which \<^verbatim>\<open>brk\<close> plus \<open>rounded_size + OVERHEAD\<close>
  (in 32-bit arithmetic) lies beyond the end of the region, \<^verbatim>\<open>__do_brk\<close> returns null and
  leaves the state unchanged; \<^verbatim>\<open>__do_malloc\<close> then fails its assertion
  "Failed to create a new block!" and does not return to its caller.
\<close>

theorem do_malloc_exhaustion_is_fatal:
  assumes "sz \<noteq> 0" and "vm_start heap \<noteq> 0"
    and "free_list_is (mem k) (vm_start heap) bs"
    and "\<forall>b\<in>set bs. blkmngr_does_it_fit (mem k) b (blkmngr_get_rounded_size sz) \<noteq> Inr True"
    and "vm_end heap < brk k + (blkmngr_get_rounded_size sz + OVERHEAD)"
  shows "do_brk k heap (blkmngr_get_rounded_size sz + OVERHEAD) = (0, k) \<and>
         do_malloc k heap sz = Inl (AssertionFailed ''Failed to create a new block!'')"
proof -
  from find_best_fitting_chain [OF assms(2,3), of "blkmngr_get_rounded_size sz"]
  obtain r where
    r: "blkmngr_find_best_fitting (mem k) (vm_start heap) (blkmngr_get_rounded_size sz) = Inr r"
    and inv: "best_among (mem k) (blkmngr_get_rounded_size sz) r bs"
    by blast
  have "r = 0"
  proof (rule ccontr)
    assume "r \<noteq> 0"
    with inv have "blkmngr_does_it_fit (mem k) r (blkmngr_get_rounded_size sz) = Inr True"
      and "r \<in> set bs"
      by (auto simp add: best_among_some)
    with assms(4) show False by blast
  qed
  have grow: "do_brk k heap (blkmngr_get_rounded_size sz + OVERHEAD) = (0, k)"
    using assms(5) by (simp add: do_brk_def)
  have "do_malloc k heap sz = Inl (AssertionFailed ''Failed to create a new block!'')"
    using assms(1) r \<open>r = 0\<close> grow by (simp add: do_malloc_def)
  with grow show ?thesis by simp
qed

text \<open>
  Witness for C1: after a fresh task has allocated 4194304 bytes the free list is empty
  and \<^verbatim>\<open>brk\<close> is \<open>0x4000000C\<close>; a request of 4194320 bytes would need the heap to grow to
  \<open>0x40400030\<close>, beyond \<open>0x40400020\<close>.
\<close>

theorem do_malloc_exhaustion_is_fatal_witness:
  "(4194320 :: u32) \<noteq> 0 \<and> vm_start heap_area \<noteq> 0 \<and>
   free_list_is (mem (kernel_after [4194304])) (vm_start heap_area) [] \<and>
   vm_end heap_area < brk (kernel_after [4194304]) + (blkmngr_get_rounded_size 4194320 + OVERHEAD) \<and>
   do_brk (kernel_after [4194304]) heap_area (blkmngr_get_rounded_size 4194320 + OVERHEAD) =
     (0, kernel_after [4194304]) \<and>
   do_malloc (kernel_after [4194304]) heap_area 4194320 =
     Inl (AssertionFailed ''Failed to create a new block!'')"
proof -
  have h1: "(4194320 :: u32) \<noteq> 0" by simp
  have h2: "vm_start heap_area \<noteq> 0" by (simp add: heap_area_def)
  have h3: "free_list_is (mem (kernel_after [4194304])) (vm_start heap_area) []"
    by (simp add: kernel_after_def heap_eval cong: let_weak_cong prod.case_cong_weak)
  have h4: "\<forall>b\<in>set []. blkmngr_does_it_fit (mem (kernel_after [4194304])) b
              (blkmngr_get_rounded_size 4194320) \<noteq> Inr True"
    by simp
  have h5: "vm_end heap_area <
              brk (kernel_after [4194304]) + (blkmngr_get_rounded_size 4194320 + OVERHEAD)"
    by (simp add: kernel_after_def heap_eval cong: let_weak_cong prod.case_cong_weak)
  from do_malloc_exhaustion_is_fatal [OF h1 h2 h3 h4 h5] h1 h2 h3 h5
  show ?thesis by blast
qed

text \<open>
  Counterexample to C1 as stated: on the heap just created the only free block does not
  fit a request of 4194320 bytes and the region cannot grow by \<open>4194320 + OVERHEAD\<close>;
  the allocation does not return null with the state unchanged, it fails the assertion.
\<close>

theorem do_malloc_exhaustion_counterexample:
  "case sys_brk_seq fresh_kernel [0] of
     Inl e \<Rightarrow> False
   | Inr (rs, k) \<Rightarrow>
       free_list_is (mem k) (vm_start heap_area) [0x40000090] \<and>
       blkmngr_does_it_fit (mem k) 0x40000090 (blkmngr_get_rounded_size 4194320) = Inr False \<and>
       vm_end heap_area < brk k + (blkmngr_get_rounded_size 4194320 + OVERHEAD) \<and>
       do_malloc k heap_area 4194320 = Inl (AssertionFailed ''Failed to create a new block!'') \<and>
       do_malloc k heap_area 4194320 \<noteq> Inr (0, k)"
  by (simp add: heap_eval cong: let_weak_cong prod.case_cong_weak)

section \<open>Removing a block that is not on the free list\<close>

text \<open>
  C9, as the code has it. \<^verbatim>\<open>__blkmngr_remove_from_freelist\<close> asserts only that the header
  and the block are not null. On every non-null block it returns, member of the free list
  or not; when the block is not the first of the free list and its two free links are
  null, as for an allocated block, all it does is store null in these two links again.
\<close>

theorem remove_from_freelist_checks_only_null:
  "(header = 0 \<or> block = 0 \<longrightarrow>
      (\<exists>msg. blkmngr_remove_from_freelist m header block = Inl (AssertionFailed msg))) \<and>
   (header \<noteq> 0 \<and> block \<noteq> 0 \<longrightarrow>
      (\<exists>m1. blkmngr_remove_from_freelist m header block = Inr m1) \<and>
      (block \<noteq> get_free m header \<and> get_prevfree m block = 0 \<and> get_nextfree m block = 0 \<longrightarrow>
         blkmngr_remove_from_freelist m header block =
           Inr (set_nextfree (set_prevfree m block 0) block 0)))"
  by (auto simp add: blkmngr_remove_from_freelist_def Let_def)

text \<open>
  Witness for C9: after a fresh task has allocated 64 bytes, the allocated block
  \<open>0x40000090\<close> is not on the free list, which holds \<open>0x400000E4\<close> alone, and removing it
  returns.
\<close>

theorem remove_from_freelist_checks_only_null_witness:
  "(0x40000000 :: u32) \<noteq> 0 \<and> (0x40000090 :: u32) \<noteq> 0 \<and>
   0x40000090 \<noteq> get_free (mem (kernel_after [64])) 0x40000000 \<and>
   get_prevfree (mem (kernel_after [64])) 0x40000090 = 0 \<and>
   get_nextfree (mem (kernel_after [64])) 0x40000090 = 0 \<and>
   blkmngr_remove_from_freelist (mem (kernel_after [64])) 0x40000000 0x40000090 =
     Inr (set_nextfree (set_prevfree (mem (kernel_after [64])) 0x40000090 0) 0x40000090 0)"
proof -
  have h1: "(0x40000000 :: u32) \<noteq> 0 \<and> (0x40000090 :: u32) \<noteq> 0" by simp
  have h2: "0x40000090 \<noteq> get_free (mem (kernel_after [64])) 0x40000000"
    by (simp add: kernel_after_def heap_eval cong: let_weak_cong prod.case_cong_weak)
  have h3: "get_prevfree (mem (kernel_after [64])) 0x40000090 = 0"
    by (simp add: kernel_after_def heap_eval cong: let_weak_cong prod.case_cong_weak)
  have h4: "get_nextfree (mem (kernel_after [64])) 0x40000090 = 0"
    by (simp add: kernel_after_def heap_eval cong: let_weak_cong prod.case_cong_weak)
  from remove_from_freelist_checks_only_null
         [where header = "0x40000000" and block = "0x40000090" and m = "mem (kernel_after [64])"]
       h1 h2 h3 h4
  show ?thesis by blast
qed

text \<open>
  Counterexample to C9 as stated: in the same state the call on the allocated block
  \<open>0x40000090\<close>, which is not on the free list, raises no assertion; it returns and the
  free list is what it was.
\<close>

theorem remove_from_freelist_nonmember_counterexample:
  "case sys_brk_seq fresh_kernel [64] of
     Inl e \<Rightarrow> False
   | Inr (rs, k) \<Rightarrow>
       rs = [0x400000A4] \<and>
       free_list_is (mem k) 0x40000000 [0x400000E4] \<and>
       \<not> BLOCK_IS_FREE (mem k) 0x40000090 \<and>
       (case blkmngr_remove_from_freelist (mem k) 0x40000000 0x40000090 of
          Inl e \<Rightarrow> False
        | Inr m1 \<Rightarrow> free_list_is m1 0x40000000 [0x400000E4])"
  by (simp add: heap_eval cong: let_weak_cong prod.case_cong_weak)

section \<open>Dispatch on the argument\<close>

lemma set_used_not_free: "\<not> BLOCK_IS_FREE (BLOCK_SET_USED m block) block"
proof -
  have "(x AND 0xFFFFFFFE) AND 1 = 0" for x :: u32
    by (simp add: and.assoc)
  then show ?thesis
    by (simp add: BLOCK_IS_FREE_def BLOCK_SET_USED_def get_size_def set_size_def
        load32_store32_same)
qed

text \<open>The walks of \<^verbatim>\<open>__blkmngr_dump\<close> end on lists that end with the null pointer.\<close>

lemma chain_dump_list: "chain (get_next m) it bs \<Longrightarrow> dump_list m it = Some ()"
proof (induction bs arbitrary: it)
  case Nil
  then show ?case by (simp add: dump_list_null)
next
  case (Cons b bs)
  then have "it \<noteq> 0" and "chain (get_next m) (get_next m it) bs" by auto
  with Cons.IH show ?case by (simp add: dump_list_step)
qed

lemma chain_dump_free: "chain (get_nextfree m) it bs \<Longrightarrow> dump_free m it = Some ()"
proof (induction bs arbitrary: it)
  case Nil
  then show ?case by (simp add: dump_free_null)
next
  case (Cons b bs)
  then have "it \<noteq> 0" and "chain (get_nextfree m) (get_nextfree m it) bs" by auto
  with Cons.IH show ?case by (simp add: dump_free_step)
qed

lemma dump_returns:
  assumes "header \<noteq> 0" and "block_list_is m header bl" and "free_list_is m header fl"
  shows "blkmngr_dump m header = Inr ()"
  using assms chain_dump_list [of m "get_head m header" bl]
    chain_dump_free [of m "get_free m header" fl]
  by (simp add: blkmngr_dump_def block_list_is_def free_list_is_def)

text \<open>
  Taking a block that the fit test accepts raises no assertion, and leaves it marked used.
\<close>

lemma malloc_fit_memory_returns:
  assumes "header \<noteq> 0" and "found \<noteq> 0"
    and "blkmngr_does_it_fit m found rounded_size = Inr True"
  shows "\<exists>m7. malloc_fit_memory m header found rounded_size = Inr m7 \<and>
              \<not> BLOCK_IS_FREE m7 found"
proof -
  from assms(2,3) have free: "BLOCK_IS_FREE m found"
    by (simp add: blkmngr_does_it_fit_def)
  have "\<exists>m1. (if rounded_size < BLOCK_REAL_SIZE (get_size m found)
            then blkmngr_split_block m header found rounded_size
            else Inr m) = Inr m1"
    using assms(2) free by (simp add: blkmngr_split_block_def Let_def)
  then obtain m1 where m1: "(if rounded_size < BLOCK_REAL_SIZE (get_size m found)
            then blkmngr_split_block m header found rounded_size
            else Inr m) = Inr m1"
    by blast
  have "\<exists>m2. blkmngr_remove_from_freelist m1 header found = Inr m2"
    using assms(1,2) by (simp add: blkmngr_remove_from_freelist_def Let_def)
  then obtain m2 where m2: "blkmngr_remove_from_freelist m1 header found = Inr m2"
    by blast
  have "malloc_fit_memory m header found rounded_size = Inr (BLOCK_SET_USED m2 found)"
    unfolding malloc_fit_memory_def m1 using m2 by simp
  then show ?thesis by (simp add: set_used_not_free)
qed

lemma do_malloc_fit:
  assumes "sz \<noteq> 0"
    and "blkmngr_find_best_fitting (mem k) (vm_start heap) (blkmngr_get_rounded_size sz) = Inr found"
    and "found \<noteq> 0"
    and "malloc_fit_memory (mem k) (vm_start heap) found (blkmngr_get_rounded_size sz) = Inr m7"
  shows "do_malloc k heap sz =
           (case blkmngr_dump m7 (vm_start heap) of
              Inl e \<Rightarrow> Inl e
            | Inr u \<Rightarrow> Inr (found + OVERHEAD, k\<lparr>mem := m7\<rparr>))"
  using assms
  by (auto simp add: do_malloc_def malloc_fit_memory_def Let_def
      split: sum.splits if_splits)

lemma do_malloc_grow:
  assumes "sz \<noteq> 0"
    and "blkmngr_find_best_fitting (mem k) (vm_start heap) (blkmngr_get_rounded_size sz) = Inr 0"
    and "\<not> vm_end heap < brk k + (blkmngr_get_rounded_size sz + OVERHEAD)"
    and "brk k \<noteq> 0" and "get_tail (mem k) (vm_start heap) \<noteq> 0"
  shows "do_malloc k heap sz =
           (case blkmngr_dump
                   (malloc_grow_memory (mem k) (vm_start heap) (brk k) (blkmngr_get_rounded_size sz))
                   (vm_start heap) of
              Inl e \<Rightarrow> Inl e
            | Inr u \<Rightarrow>
                Inr (brk k + OVERHEAD,
                     k\<lparr>brk := brk k + (blkmngr_get_rounded_size sz + OVERHEAD),
                       mem := malloc_grow_memory (mem k) (vm_start heap) (brk k)
                                (blkmngr_get_rounded_size sz)\<rparr>))"
  using assms
  by (auto simp add: do_malloc_def do_brk_def malloc_grow_memory_def Let_def
      split: sum.splits)

text \<open>
  C8, as the code has it. On an initialized heap an argument strictly between the start and
  the end of the region is freed as a payload pointer, and the call returns null once the
  free has returned; any other argument is allocated as a size. Size zero returns null.
  For another size, on a heap with a non-null header whose free list ends with the null
  pointer, the search returns, with a block exactly when one of the free list fits the
  rounded size. A block found is taken without any assertion failing and marked used, and
  the call returns its payload pointer, block base plus \<open>OVERHEAD\<close>, if the block list and
  the free list of the resulting memory end with the null pointer (the closing
  \<^verbatim>\<open>__blkmngr_dump\<close> walks both). When no block fits and \<^verbatim>\<open>brk\<close> plus
  \<open>rounded_size + OVERHEAD\<close>, computed in 32 bits, is beyond the end of the region, the call
  does not return null: the assertion "Failed to create a new block!" fails. When no
  block fits, that sum is not beyond the end and neither \<^verbatim>\<open>brk\<close> nor the tail is null, the
  block set up at the old \<^verbatim>\<open>brk\<close> is marked used, \<^verbatim>\<open>brk\<close> advances by \<open>rounded_size + OVERHEAD\<close>
  and the call returns the old \<^verbatim>\<open>brk\<close> plus \<open>OVERHEAD\<close>, again if the two lists of the
  resulting memory end with the null pointer.
\<close>

theorem sys_brk_dispatch_on_initialized_heap:
  assumes "find_vm_area k (start_brk k) = Some heap"
  shows "(vm_start heap < arg \<and> arg < vm_end heap \<longrightarrow>
            sys_brk k arg = (case do_free k heap arg of Inl e \<Rightarrow> Inl e | Inr k1 \<Rightarrow> Inr (0, k1))) \<and>
         (\<not> (vm_start heap < arg \<and> arg < vm_end heap) \<longrightarrow>
            sys_brk k arg = do_malloc k heap arg \<and>
            (arg = 0 \<longrightarrow> sys_brk k arg = Inr (0, k)) \<and>
            (arg \<noteq> 0 \<and> vm_start heap \<noteq> 0 \<and> free_list_is (mem k) (vm_start heap) fl \<longrightarrow>
               (\<exists>found.
                  blkmngr_find_best_fitting (mem k) (vm_start heap)
                    (blkmngr_get_rounded_size arg) = Inr found \<and>
                  (found = 0 \<longleftrightarrow>
                     (\<forall>b\<in>set fl. blkmngr_does_it_fit (mem k) b
                                    (blkmngr_get_rounded_size arg) \<noteq> Inr True)) \<and>
                  (found \<noteq> 0 \<longrightarrow>
                     (\<exists>m7. malloc_fit_memory (mem k) (vm_start heap) found
                             (blkmngr_get_rounded_size arg) = Inr m7 \<and>
                           \<not> BLOCK_IS_FREE m7 found \<and>
                           (\<forall>bl fl1. block_list_is m7 (vm_start heap) bl \<and>
                                     free_list_is m7 (vm_start heap) fl1 \<longrightarrow>
                              sys_brk k arg = Inr (found + OVERHEAD, k\<lparr>mem := m7\<rparr>)))) \<and>
                  (found = 0 \<and>
                   vm_end heap < brk k + (blkmngr_get_rounded_size arg + OVERHEAD) \<longrightarrow>
                     sys_brk k arg = Inl (AssertionFailed ''Failed to create a new block!'')) \<and>
                  (found = 0 \<and>
                   \<not> vm_end heap < brk k + (blkmngr_get_rounded_size arg + OVERHEAD) \<and>
                   brk k \<noteq> 0 \<and> get_tail (mem k) (vm_start heap) \<noteq> 0 \<longrightarrow>
                     \<not> BLOCK_IS_FREE
                         (malloc_grow_memory (mem k) (vm_start heap) (brk k)
                            (blkmngr_get_rounded_size arg)) (brk k) \<and>
                     (\<forall>bl fl1.
                        block_list_is
                          (malloc_grow_memory (mem k) (vm_start heap) (brk k)
                             (blkmngr_get_rounded_size arg)) (vm_start heap) bl \<and>
                        free_list_is
                          (malloc_grow_memory (mem k) (vm_start heap) (brk k)
                             (blkmngr_get_rounded_size arg)) (vm_start heap) fl1 \<longrightarrow>
                        sys_brk k arg =
                          Inr (brk k + OVERHEAD,
                               k\<lparr>brk := brk k + (blkmngr_get_rounded_size arg + OVERHEAD),
                                 mem := malloc_grow_memory (mem k) (vm_start heap) (brk k)
                                          (blkmngr_get_rounded_size arg)\<rparr>))))))"
proof -
  let ?rs = "blkmngr_get_rounded_size arg"
  let ?h = "vm_start heap"
  let ?g = "malloc_grow_memory (mem k) ?h (brk k) ?rs"
  have disp: "sys_brk k arg = sys_brk_dispatch k heap arg"
    using assms by (simp add: sys_brk_def)
  have free: "vm_start heap < arg \<and> arg < vm_end heap \<longrightarrow>
            sys_brk k arg = (case do_free k heap arg of Inl e \<Rightarrow> Inl e | Inr k1 \<Rightarrow> Inr (0, k1))"
    by (simp add: disp sys_brk_dispatch_def)
  have alloc: "sys_brk k arg = do_malloc k heap arg"
    if "\<not> (vm_start heap < arg \<and> arg < vm_end heap)"
    unfolding disp sys_brk_dispatch_def using that by (rule if_not_P)
  have zero: "do_malloc k heap 0 = Inr (0, k)"
    by (simp add: do_malloc_def)
  have nonzero: "\<exists>found.
        blkmngr_find_best_fitting (mem k) ?h ?rs = Inr found \<and>
        (found = 0 \<longleftrightarrow> (\<forall>b\<in>set fl. blkmngr_does_it_fit (mem k) b ?rs \<noteq> Inr True)) \<and>
        (found \<noteq> 0 \<longrightarrow>
           (\<exists>m7. malloc_fit_memory (mem k) ?h found ?rs = Inr m7 \<and>
                 \<not> BLOCK_IS_FREE m7 found \<and>
                 (\<forall>bl fl1. block_list_is m7 ?h bl \<and> free_list_is m7 ?h fl1 \<longrightarrow>
                    do_malloc k heap arg = Inr (found + OVERHEAD, k\<lparr>mem := m7\<rparr>)))) \<and>
        (found = 0 \<and> vm_end heap < brk k + (?rs + OVERHEAD) \<longrightarrow>
           do_malloc k heap arg = Inl (AssertionFailed ''Failed to create a new block!'')) \<and>
        (found = 0 \<and> \<not> vm_end heap < brk k + (?rs + OVERHEAD) \<and>
         brk k \<noteq> 0 \<and> get_tail (mem k) ?h \<noteq> 0 \<longrightarrow>
           \<not> BLOCK_IS_FREE ?g (brk k) \<and>
           (\<forall>bl fl1. block_list_is ?g ?h bl \<and> free_list_is ?g ?h fl1 \<longrightarrow>
              do_malloc k heap arg =
                Inr (brk k + OVERHEAD, k\<lparr>brk := brk k + (?rs + OVERHEAD), mem := ?g\<rparr>)))"
    if nz: "arg \<noteq> 0" and hd: "?h \<noteq> 0" and fl: "free_list_is (mem k) ?h fl"
  proof -
    from find_best_fitting_on_free_list [OF hd fl, of ?rs] obtain found where
      f: "blkmngr_find_best_fitting (mem k) ?h ?rs = Inr found"
      and z: "found = 0 \<longleftrightarrow> (\<forall>b\<in>set fl. blkmngr_does_it_fit (mem k) b ?rs \<noteq> Inr True)"
      and s: "found \<noteq> 0 \<longrightarrow> BLOCK_IS_FREE (mem k) found \<and>
                BLOCK_REAL_SIZE ?rs \<le> real_size (mem k) found"
      by blast
    have fit: "\<exists>m7. malloc_fit_memory (mem k) ?h found ?rs = Inr m7 \<and>
                 \<not> BLOCK_IS_FREE m7 found \<and>
                 (\<forall>bl fl1. block_list_is m7 ?h bl \<and> free_list_is m7 ?h fl1 \<longrightarrow>
                    do_malloc k heap arg = Inr (found + OVERHEAD, k\<lparr>mem := m7\<rparr>))"
      if fnz: "found \<noteq> 0"
    proof -
      from s fnz have "blkmngr_does_it_fit (mem k) found ?rs = Inr True"
        by (simp add: blkmngr_does_it_fit_def real_size_def)
      from malloc_fit_memory_returns [OF hd fnz this] obtain m7 where
        m7: "malloc_fit_memory (mem k) ?h found ?rs = Inr m7"
        and u: "\<not> BLOCK_IS_FREE m7 found"
        by blast
      have "do_malloc k heap arg = Inr (found + OVERHEAD, k\<lparr>mem := m7\<rparr>)"
        if "block_list_is m7 ?h bl" and "free_list_is m7 ?h fl1" for bl fl1
        using do_malloc_fit [OF nz f fnz m7] dump_returns [OF hd that] by simp
      with m7 u show ?thesis by blast
    qed
    have fail: "do_malloc k heap arg = Inl (AssertionFailed ''Failed to create a new block!'')"
      if "found = 0" and "vm_end heap < brk k + (?rs + OVERHEAD)"
      using nz f that by (simp add: do_malloc_def do_brk_def)
    have used: "\<not> BLOCK_IS_FREE ?g (brk k)"
      by (simp add: malloc_grow_memory_def Let_def set_used_not_free)
    have grow: "do_malloc k heap arg =
                Inr (brk k + OVERHEAD, k\<lparr>brk := brk k + (?rs + OVERHEAD), mem := ?g\<rparr>)"
      if "found = 0" and "\<not> vm_end heap < brk k + (?rs + OVERHEAD)"
        and "brk k \<noteq> 0" and "get_tail (mem k) ?h \<noteq> 0"
        and "block_list_is ?g ?h bl" and "free_list_is ?g ?h fl1" for bl fl1
      using do_malloc_grow [OF nz f [unfolded that(1)] that(2,3,4)]
        dump_returns [OF hd that(5,6)] by simp
    from f z fit fail used grow show ?thesis by blast
  qed
  show ?thesis
  proof (intro conjI impI)
    assume "vm_start heap < arg \<and> arg < vm_end heap"
    with free show "sys_brk k arg = (case do_free k heap arg of Inl e \<Rightarrow> Inl e | Inr k1 \<Rightarrow> Inr (0, k1))"
      by blast
  next
    assume "\<not> (vm_start heap < arg \<and> arg < vm_end heap)"
    then show "sys_brk k arg = do_malloc k heap arg" by (rule alloc)
  next
    assume "\<not> (vm_start heap < arg \<and> arg < vm_end heap)" and "arg = 0"
    then show "sys_brk k arg = Inr (0, k)" using alloc zero by simp
  next
    assume n: "\<not> (vm_start heap < arg \<and> arg < vm_end heap)"
      and x: "arg \<noteq> 0 \<and> ?h \<noteq> 0 \<and> free_list_is (mem k) ?h fl"
    from x have "arg \<noteq> 0" and "?h \<noteq> 0" and "free_list_is (mem k) ?h fl" by simp_all
    from nonzero [OF this] show "\<exists>found.
        blkmngr_find_best_fitting (mem k) ?h ?rs = Inr found \<and>
        (found = 0 \<longleftrightarrow> (\<forall>b\<in>set fl. blkmngr_does_it_fit (mem k) b ?rs \<noteq> Inr True)) \<and>
        (found \<noteq> 0 \<longrightarrow>
           (\<exists>m7. malloc_fit_memory (mem k) ?h found ?rs = Inr m7 \<and>
                 \<not> BLOCK_IS_FREE m7 found \<and>
                 (\<forall>bl fl1. block_list_is m7 ?h bl \<and> free_list_is m7 ?h fl1 \<longrightarrow>
                    sys_brk k arg = Inr (found + OVERHEAD, k\<lparr>mem := m7\<rparr>)))) \<and>
        (found = 0 \<and> vm_end heap < brk k + (?rs + OVERHEAD) \<longrightarrow>
           sys_brk k arg = Inl (AssertionFailed ''Failed to create a new block!'')) \<and>
        (found = 0 \<and> \<not> vm_end heap < brk k + (?rs + OVERHEAD) \<and>
         brk k \<noteq> 0 \<and> get_tail (mem k) ?h \<noteq> 0 \<longrightarrow>
           \<not> BLOCK_IS_FREE ?g (brk k) \<and>
           (\<forall>bl fl1. block_list_is ?g ?h bl \<and> free_list_is ?g ?h fl1 \<longrightarrow>
              sys_brk k arg =
                Inr (brk k + OVERHEAD, k\<lparr>brk := brk k + (?rs + OVERHEAD), mem := ?g\<rparr>)))"
      unfolding alloc [OF n] .
  qed
qed

text \<open>
  Witness for C8. After a fresh task has allocated 64 bytes and got \<open>0x400000A4\<close>: that
  argument is freed; the argument 0 returns null; the argument 64 takes the free block
  \<open>0x400000E4\<close> and returns \<open>0x400000F8\<close>. After a fresh task has allocated 4194304 bytes
  the free list is empty, and the argument 16 grows the heap and returns \<open>0x40000020\<close>,
  the old \<^verbatim>\<open>brk\<close> plus \<open>OVERHEAD\<close>.
\<close>

theorem sys_brk_dispatch_on_initialized_heap_witness:
  "find_vm_area (kernel_after [64]) (start_brk (kernel_after [64])) = Some heap_area \<and>
   vm_start heap_area < 0x400000A4 \<and> 0x400000A4 < vm_end heap_area \<and>
   sys_brk (kernel_after [64]) 0x400000A4 =
     (case do_free (kernel_after [64]) heap_area 0x400000A4 of
        Inl e \<Rightarrow> Inl e
      | Inr k1 \<Rightarrow> Inr (0, k1)) \<and>
   \<not> (vm_start heap_area < 64 \<and> 64 < vm_end heap_area) \<and>
   sys_brk (kernel_after [64]) 0 = Inr (0, kernel_after [64]) \<and>
   free_list_is (mem (kernel_after [64])) (vm_start heap_area) [0x400000E4] \<and>
   (\<exists>m7. malloc_fit_memory (mem (kernel_after [64])) (vm_start heap_area) 0x400000E4
            (blkmngr_get_rounded_size 64) = Inr m7 \<and>
         block_list_is m7 (vm_start heap_area) [0x40000090, 0x400000E4, 0x40000138] \<and>
         free_list_is m7 (vm_start heap_area) [0x40000138] \<and>
         sys_brk (kernel_after [64]) 64 = Inr (0x400000F8, (kernel_after [64])\<lparr>mem := m7\<rparr>)) \<and>
   find_vm_area (kernel_after [4194304]) (start_brk (kernel_after [4194304])) = Some heap_area \<and>
   free_list_is (mem (kernel_after [4194304])) (vm_start heap_area) [] \<and>
   brk (kernel_after [4194304]) = 0x4000000C \<and>
   sys_brk (kernel_after [4194304]) 16 =
     Inr (0x40000020,
          (kernel_after [4194304])
            \<lparr>brk := 0x40000030,
             mem := malloc_grow_memory (mem (kernel_after [4194304])) (vm_start heap_area)
                      (brk (kernel_after [4194304])) (blkmngr_get_rounded_size 16)\<rparr>)"
proof -
  let ?K = "kernel_after [64]"
  let ?G = "kernel_after [4194304]"
  let ?h = "vm_start heap_area"
  have h: "find_vm_area ?K (start_brk ?K) = Some heap_area"
    by (simp add: kernel_after_def heap_eval cong: let_weak_cong prod.case_cong_weak)
  have r1: "vm_start heap_area < 0x400000A4 \<and> 0x400000A4 < vm_end heap_area"
    by (simp add: heap_area_def)
  have r2: "\<not> (vm_start heap_area < 64 \<and> 64 < vm_end heap_area)"
    by (simp add: heap_area_def)
  have r3: "\<not> (vm_start heap_area < 0 \<and> 0 < vm_end heap_area)"
    by simp
  have hd: "?h \<noteq> 0" by (simp add: heap_area_def)
  have fl: "free_list_is (mem ?K) ?h [0x400000E4]"
    by (simp add: kernel_after_def heap_eval cong: let_weak_cong prod.case_cong_weak)
  have e: "blkmngr_find_best_fitting (mem ?K) ?h (blkmngr_get_rounded_size 64) = Inr 0x400000E4"
    by (simp add: kernel_after_def heap_eval cong: let_weak_cong prod.case_cong_weak)
  have c: "case malloc_fit_memory (mem ?K) ?h 0x400000E4 (blkmngr_get_rounded_size 64) of
             Inl e \<Rightarrow> False
           | Inr m \<Rightarrow> block_list_is m ?h [0x40000090, 0x400000E4, 0x40000138] \<and>
                     free_list_is m ?h [0x40000138]"
    by (simp add: kernel_after_def heap_eval cong: let_weak_cong prod.case_cong_weak)
  have free: "sys_brk ?K 0x400000A4 =
     (case do_free ?K heap_area 0x400000A4 of Inl e \<Rightarrow> Inl e | Inr k1 \<Rightarrow> Inr (0, k1))"
    using sys_brk_dispatch_on_initialized_heap [OF h, of "0x400000A4"] r1 by blast
  have zero: "sys_brk ?K 0 = Inr (0, ?K)"
    using sys_brk_dispatch_on_initialized_heap [OF h, of 0] r3 by blast
  from sys_brk_dispatch_on_initialized_heap [OF h, of 64 "[0x400000E4]"] r2 hd fl e
  obtain m7 where
    t: "malloc_fit_memory (mem ?K) ?h 0x400000E4 (blkmngr_get_rounded_size 64) = Inr m7"
    and r: "\<forall>bl fl1. block_list_is m7 ?h bl \<and> free_list_is m7 ?h fl1 \<longrightarrow>
              sys_brk ?K 64 = Inr (0x400000E4 + OVERHEAD, ?K\<lparr>mem := m7\<rparr>)"
    by auto
  from c have lists: "block_list_is m7 ?h [0x40000090, 0x400000E4, 0x40000138] \<and>
                      free_list_is m7 ?h [0x40000138]"
    unfolding t by simp
  with r have "sys_brk ?K 64 = Inr (0x400000E4 + OVERHEAD, ?K\<lparr>mem := m7\<rparr>)"
    by blast
  then have fit: "sys_brk ?K 64 = Inr (0x400000F8, ?K\<lparr>mem := m7\<rparr>)"
    by (simp add: OVERHEAD_def)
  have h': "find_vm_area ?G (start_brk ?G) = Some heap_area"
    by (simp add: kernel_after_def heap_eval cong: let_weak_cong prod.case_cong_weak)
  have fl': "free_list_is (mem ?G) ?h []"
    by (simp add: kernel_after_def heap_eval cong: let_weak_cong prod.case_cong_weak)
  have b: "brk ?G = 0x4000000C"
    by (simp add: kernel_after_def heap_eval cong: let_weak_cong prod.case_cong_weak)
  have tl: "get_tail (mem ?G) ?h \<noteq> 0"
    by (simp add: kernel_after_def heap_eval cong: let_weak_cong prod.case_cong_weak)
  have r4: "\<not> (vm_start heap_area < 16 \<and> 16 < vm_end heap_area)"
    by (simp add: heap_area_def)
  have room: "\<not> vm_end heap_area < brk ?G + (blkmngr_get_rounded_size 16 + OVERHEAD)"
    unfolding b by (simp add: heap_eval)
  have c': "block_list_is (malloc_grow_memory (mem ?G) ?h (brk ?G) (blkmngr_get_rounded_size 16))
              ?h [0x40000090, 0x4000000C] \<and>
            free_list_is (malloc_grow_memory (mem ?G) ?h (brk ?G) (blkmngr_get_rounded_size 16))
              ?h []"
    by (simp add: kernel_after_def heap_eval cong: let_weak_cong prod.case_cong_weak)
  have bnz: "brk ?G \<noteq> 0" unfolding b by simp
  from sys_brk_dispatch_on_initialized_heap [OF h', of 16 "[]"] r4 hd fl' room bnz tl c'
  have "sys_brk ?G 16 =
     Inr (brk ?G + OVERHEAD,
          ?G\<lparr>brk := brk ?G + (blkmngr_get_rounded_size 16 + OVERHEAD),
             mem := malloc_grow_memory (mem ?G) ?h (brk ?G) (blkmngr_get_rounded_size 16)\<rparr>)"
    by auto
  moreover have "brk ?G + OVERHEAD = 0x40000020"
    and "brk ?G + (blkmngr_get_rounded_size 16 + OVERHEAD) = 0x40000030"
    unfolding b by (simp_all add: heap_eval)
  ultimately have grow: "sys_brk ?G 16 =
     Inr (0x40000020,
          ?G\<lparr>brk := 0x40000030,
             mem := malloc_grow_memory (mem ?G) ?h (brk ?G) (blkmngr_get_rounded_size 16)\<rparr>)"
    by simp
  from h r1 free r2 zero fl t lists fit h' fl' b grow show ?thesis by blast
qed

text \<open>
  Counterexample to C8 as stated: on the heap just created the argument 8388608 is
  outside the region, so it is a size; no block fits it and the region cannot grow that
  far. The call does not return null, nor anything else: the assertion fails.
\<close>

theorem sys_brk_failure_counterexample:
  "case sys_brk_seq fresh_kernel [0] of
     Inl e \<Rightarrow> False
   | Inr (rs, k) \<Rightarrow>
       find_vm_area k (start_brk k) = Some heap_area \<and>
       \<not> (vm_start heap_area < 8388608 \<and> 8388608 < vm_end heap_area) \<and>
       sys_brk k 8388608 = Inl (AssertionFailed ''Failed to create a new block!'')"
  by (simp add: heap_eval cong: let_weak_cong prod.case_cong_weak)

section \<open>Lazy creation\<close>

text \<open>
  C5. The first call of a task creates the heap: the area is \<open>[0x40000000, 0x40400020)\<close>,
  the header is at its base and \<^verbatim>\<open>brk\<close> is just past the header, at \<open>0x4000000C\<close>. The
  one free block, head, tail and sole entry of the free list, is not placed there: it
  sits at \<open>0x40000090\<close>, 144 bytes above the base, and its 4 MB payload ends at
  \<open>0x404000A4\<close>, beyond the end of the area.
\<close>

theorem heap_create_first_block_misplaced:
  "case sys_brk_seq fresh_kernel [0] of
     Inl e \<Rightarrow> False
   | Inr (rs, k) \<Rightarrow>
       rs = [0] \<and>
       find_vm_area k (start_brk k) = Some \<lparr>vm_start = 0x40000000, vm_end = 0x40400020\<rparr> \<and>
       brk k = 0x40000000 + sizeof_heap_header_t \<and>
       block_list_is (mem k) 0x40000000 [0x40000090] \<and>
       free_list_is (mem k) 0x40000000 [0x40000090] \<and>
       get_tail (mem k) 0x40000000 = 0x40000090 \<and>
       get_size (mem k) 0x40000090 = 4 * M + 1 \<and>
       (0x40000090 :: u32) \<noteq> 0x40000000 + sizeof_heap_header_t \<and>
       (0x40400020 :: u32) < 0x40000090 + OVERHEAD + BLOCK_REAL_SIZE (get_size (mem k) 0x40000090)"
  by (simp add: heap_eval cong: let_weak_cong prod.case_cong_weak)

text \<open>
  Whatever the state, creating the heap returns: the area, registered with the memory
  descriptor, and one free block that is the block list and the free list.
\<close>

lemma heap_create_result:
  "\<exists>k1. heap_create k = Inr (heap_area, k1) \<and>
        find_vm_area k1 (start_brk k1) = Some heap_area \<and>
        brk k1 = 0x4000000C \<and>
        block_list_is (mem k1) 0x40000000 [0x40000090] \<and>
        free_list_is (mem k1) 0x40000000 [0x40000090] \<and>
        BLOCK_IS_FREE (mem k1) 0x40000090"
  by (simp add: heap_eval load32_memset_inside cong: let_weak_cong prod.case_cong_weak)

text \<open>
  C10. When the task has no heap yet, one call creates the heap, always the area
  \<open>[0x40000000, 0x40400020)\<close> with a single free block, and then dispatches on these
  bounds: for every argument strictly between them the call is the free of that argument
  on the heap just created, and not an allocation.
\<close>

theorem first_call_dispatches_on_new_region:
  assumes "find_vm_area k (start_brk k) = None"
    and "vm_start heap_area < arg" and "arg < vm_end heap_area"
  shows "\<exists>k1. heap_create k = Inr (heap_area, k1) \<and>
           find_vm_area k1 (start_brk k1) = Some heap_area \<and>
           block_list_is (mem k1) 0x40000000 [0x40000090] \<and>
           free_list_is (mem k1) 0x40000000 [0x40000090] \<and>
           BLOCK_IS_FREE (mem k1) 0x40000090 \<and>
           sys_brk k arg =
             (case do_free k1 heap_area arg of Inl e \<Rightarrow> Inl e | Inr k2 \<Rightarrow> Inr (0, k2))"
proof -
  from heap_create_result [of k] obtain k1 where
    c: "heap_create k = Inr (heap_area, k1)"
    and f: "find_vm_area k1 (start_brk k1) = Some heap_area"
    and b: "block_list_is (mem k1) 0x40000000 [0x40000090]"
    and l: "free_list_is (mem k1) 0x40000000 [0x40000090]"
    and i: "BLOCK_IS_FREE (mem k1) 0x40000090"
    by blast
  have "sys_brk k arg =
          (case do_free k1 heap_area arg of Inl e \<Rightarrow> Inl e | Inr k2 \<Rightarrow> Inr (0, k2))"
    using assms c by (simp add: sys_brk_def sys_brk_dispatch_def)
  with c f b l i show ?thesis by blast
qed

text \<open>
  Witness for C10: the first call of a fresh task with the argument \<open>0x40000100\<close> frees
  the "block" at \<open>0x400000EC\<close> of the new heap: it returns null, \<^verbatim>\<open>brk\<close> has not moved and
  that address is now the first of the free list.
\<close>

theorem first_call_dispatches_on_new_region_witness:
  "find_vm_area fresh_kernel (start_brk fresh_kernel) = None \<and>
   vm_start heap_area < 0x40000100 \<and> 0x40000100 < vm_end heap_area \<and>
   (\<exists>k1. heap_create fresh_kernel = Inr (heap_area, k1) \<and>
      sys_brk fresh_kernel 0x40000100 =
        (case do_free k1 heap_area 0x40000100 of Inl e \<Rightarrow> Inl e | Inr k2 \<Rightarrow> Inr (0, k2))) \<and>
   (case sys_brk fresh_kernel 0x40000100 of
      Inl e \<Rightarrow> False
    | Inr (p, k) \<Rightarrow>
        p = 0 \<and> brk k = 0x4000000C \<and> free_list_is (mem k) 0x40000000 [0x400000EC, 0x40000090])"
proof -
  have h1: "find_vm_area fresh_kernel (start_brk fresh_kernel) = None"
    by (simp add: find_vm_area_def fresh_kernel_def)
  have h2: "vm_start heap_area < 0x40000100" and h3: "0x40000100 < vm_end heap_area"
    by (simp_all add: heap_area_def)
  have e: "case sys_brk fresh_kernel 0x40000100 of
      Inl e \<Rightarrow> False
    | Inr (p, k) \<Rightarrow>
        p = 0 \<and> brk k = 0x4000000C \<and> free_list_is (mem k) 0x40000000 [0x400000EC, 0x40000090]"
    by (simp add: heap_eval cong: let_weak_cong prod.case_cong_weak)
  from first_call_dispatches_on_new_region [OF h1 h2 h3] h1 h2 h3 e
  show ?thesis by blast
qed

section \<open>Growing the heap\<close>

text \<open>
  C2. On a fresh heap, allocating 4194304 bytes takes the whole first block; allocating
  16 more grows the heap. The new block is linked after the old tail, at \<open>0x4000000C\<close>,
  below the head at \<open>0x40000090\<close>, and the tail pointer still designates the old tail,
  whose \<^verbatim>\<open>next\<close> is the new block.
\<close>

theorem growth_leaves_tail_behind:
  "case sys_brk_seq fresh_kernel [4194304, 16] of
     Inl e \<Rightarrow> False
   | Inr (rs, k) \<Rightarrow>
       rs = [0x400000A4, 0x40000020] \<and>
       block_list_is (mem k) 0x40000000 [0x40000090, 0x4000000C] \<and>
       get_tail (mem k) 0x40000000 = 0x40000090 \<and>
       get_next (mem k) 0x40000090 = 0x4000000C \<and>
       get_next (mem k) 0x4000000C = 0 \<and>
       (0x4000000C :: u32) < 0x40000090"
  by (simp add: heap_eval cong: let_weak_cong prod.case_cong_weak)

section \<open>Splitting on the allocation path\<close>

text \<open>
  C4. Two blocks of 64 bytes are allocated and the first is freed, so the best fit for a
  request of 48 bytes is that block at \<open>0x40000090\<close>, of real size 64, less than
  \<open>48 + OVERHEAD = 68\<close>. \<^verbatim>\<open>__do_malloc\<close> compares the real size with the rounded size alone
  and splits: the remainder at \<open>0x400000D4\<close> gets the size \<open>64 - 20 - 48\<close>, which wraps to
  \<open>0xFFFFFFFC\<close> (plus the free flag), and its \<^verbatim>\<open>next\<close> field overwrites the \<^verbatim>\<open>size\<close> field of
  the allocated block at \<open>0x400000E4\<close>.
\<close>

theorem split_without_room_for_remainder:
  "case sys_brk_seq fresh_kernel [64, 64, 0x400000A4] of
     Inl e \<Rightarrow> False
   | Inr (rs, k) \<Rightarrow>
       rs = [0x400000A4, 0x400000F8, 0] \<and>
       blkmngr_find_best_fitting (mem k) 0x40000000 (blkmngr_get_rounded_size 48) = Inr 0x40000090 \<and>
       BLOCK_REAL_SIZE (get_size (mem k) 0x40000090) = 64 \<and>
       get_size (mem k) 0x400000E4 = 64 \<and>
       (case sys_brk k 48 of
          Inl e \<Rightarrow> False
        | Inr (p, k1) \<Rightarrow>
            p = 0x400000A4 \<and>
            block_list_is (mem k1) 0x40000000 [0x40000090, 0x400000D4, 0x400000E4, 0x40000138] \<and>
            get_size (mem k1) 0x40000090 = 48 \<and>
            get_size (mem k1) 0x400000D4 = 0xFFFFFFFD \<and>
            get_size (mem k1) 0x400000E4 = 0x400000E4)"
  by (simp add: heap_eval cong: let_weak_cong prod.case_cong_weak)

section \<open>The free list after a split\<close>

text \<open>
  C3. After allocating two blocks of 64 bytes and freeing the first, the free list holds
  that block and the remainder at \<open>0x40000138\<close>. Allocating 16 bytes splits the first;
  the split leaves the \<^verbatim>\<open>prevfree\<close> link of \<open>0x40000138\<close> on the block just allocated.
  Allocating 1024 bytes then takes \<open>0x40000138\<close>, and its removal from the free list
  patches the allocated block instead of the real predecessor \<open>0x400000B4\<close>: the used
  block \<open>0x40000138\<close> stays on the free list, and the new free remainder \<open>0x4000054C\<close>
  is not on it.
\<close>

theorem free_list_membership_broken:
  "case sys_brk_seq fresh_kernel [64, 64, 0x400000A4, 16, 1024] of
     Inl e \<Rightarrow> False
   | Inr (rs, k) \<Rightarrow>
       rs = [0x400000A4, 0x400000F8, 0, 0x400000A4, 0x4000014C] \<and>
       block_list_is (mem k) 0x40000000
         [0x40000090, 0x400000B4, 0x400000E4, 0x40000138, 0x4000054C] \<and>
       free_list_is (mem k) 0x40000000 [0x400000B4, 0x40000138] \<and>
       \<not> BLOCK_IS_FREE (mem k) 0x40000138 \<and>
       BLOCK_IS_FREE (mem k) 0x4000054C \<and>
       get_prevfree (mem k) 0x4000054C = 0x40000090 \<and>
       \<not> BLOCK_IS_FREE (mem k) 0x40000090"
  by (simp add: heap_eval cong: let_weak_cong prod.case_cong_weak)

section \<open>Best fit after the free list has lost a block\<close>

text \<open>
  C7. In the state reached above the free block \<open>0x4000054C\<close>, of real size 4193092, is on
  the block list but on no free list. A request of 2048 bytes, which it fits, is answered
  by the search with "not found", and the allocator grows the heap instead of using the
  block.
\<close>

theorem find_best_fitting_misses_free_block:
  "case sys_brk_seq fresh_kernel [64, 64, 0x400000A4, 16, 1024] of
     Inl e \<Rightarrow> False
   | Inr (rs, k) \<Rightarrow>
       block_list_is (mem k) 0x40000000
         [0x40000090, 0x400000B4, 0x400000E4, 0x40000138, 0x4000054C] \<and>
       free_list_is (mem k) 0x40000000 [0x400000B4, 0x40000138] \<and>
       BLOCK_IS_FREE (mem k) 0x4000054C \<and>
       real_size (mem k) 0x4000054C = 4193092 \<and>
       blkmngr_get_rounded_size 2048 = 2048 \<and>
       blkmngr_does_it_fit (mem k) 0x4000054C (blkmngr_get_rounded_size 2048) = Inr True \<and>
       blkmngr_find_best_fitting (mem k) 0x40000000 (blkmngr_get_rounded_size 2048) = Inr 0 \<and>
       (case sys_brk k 2048 of
          Inl e \<Rightarrow> False
        | Inr (p, k1) \<Rightarrow> p = 0x40000020 \<and> brk k = 0x4000000C \<and> brk k1 = 0x40000820)"
  by (simp add: heap_eval cong: let_weak_cong prod.case_cong_weak)

section \<open>Coalescing on free\<close>

text \<open>
  C6. Same start: two blocks of 64 bytes, the first freed, 16 bytes allocated from it, which
  splits it into \<open>0x40000090\<close> (used) and the free remainder \<open>0x400000B4\<close>. The split does
  not update the \<^verbatim>\<open>prev\<close> link of the following block \<open>0x400000E4\<close>. Freeing that block
  therefore sees the used block \<open>0x40000090\<close> as its predecessor, merges only with its
  successor, and ends with the free blocks \<open>0x400000B4\<close> and \<open>0x400000E4\<close> next to each
  other.
\<close>

theorem free_leaves_adjacent_free_blocks:
  "case sys_brk_seq fresh_kernel [64, 64, 0x400000A4, 16, 0x400000F8] of
     Inl e \<Rightarrow> False
   | Inr (rs, k) \<Rightarrow>
       rs = [0x400000A4, 0x400000F8, 0, 0x400000A4, 0] \<and>
       block_list_is (mem k) 0x40000000 [0x40000090, 0x400000B4, 0x400000E4] \<and>
       BLOCK_IS_FREE (mem k) 0x400000B4 \<and>
       BLOCK_IS_FREE (mem k) 0x400000E4 \<and>
       get_next (mem k) 0x400000B4 = 0x400000E4 \<and>
       0x400000B4 + OVERHEAD + BLOCK_REAL_SIZE (get_size (mem k) 0x400000B4) = 0x400000E4 \<and>
       get_prev (mem k) 0x400000E4 = 0x40000090"
  by (simp add: heap_eval cong: let_weak_cong prod.case_cong_weak)

end
